theory Spec2Isabelle
  imports Main
begin

section \<open>JavaScript values and the graphics context\<close>

text \<open>
  Numeric arguments of the wrapper's methods are JavaScript numbers that may be
  omitted. An omitted argument is \<open>Undefined\<close>. Index lists, strides, offsets and
  counts are integral in every use the library documents, so a number is an \<open>int\<close>
  (fractions, NaN and infinities are outside the model); where the code adds two
  numbers the model rounds the sum as the double addition does.
\<close>

datatype jsnum = Undefined | Num int

text \<open>The expression \<^verbatim>\<open>x || d\<close> with a numeric default: \<open>undefined\<close> and \<open>0\<close> are falsy.\<close>

fun or_default :: "jsnum \<Rightarrow> int \<Rightarrow> int" where
  "or_default Undefined d = d"
| "or_default (Num n) d = (if n = 0 then d else n)"

text \<open>The expression \<^verbatim>\<open>!!x\<close> on an optional boolean argument.\<close>

fun not_not :: "bool option \<Rightarrow> bool" where
  "not_not None = False"
| "not_not (Some b) = b"

text \<open>A named parameter read from the list of actual arguments.\<close>

definition arg :: "jsnum list \<Rightarrow> nat \<Rightarrow> jsnum" where
  "arg args i = (if i < length args then args ! i else Undefined)"

text \<open>
  \<^verbatim>\<open>table.hasOwnProperty(key)\<close> on a table of named entries. An omitted key is
  \<open>undefined\<close>, which names no entry of the tables below.
\<close>

definition hasOwnProperty :: "(string \<Rightarrow> 'a option) \<Rightarrow> string option \<Rightarrow> bool" where
  "hasOwnProperty table key =
     (case key of
        None \<Rightarrow> False
      | Some k \<Rightarrow> (case table k of None \<Rightarrow> False | Some _ \<Rightarrow> True))"

text \<open>The constants of the graphics context that the arrays module reads.\<close>

datatype gl_enum =
    BYTE | UNSIGNED_BYTE | SHORT | UNSIGNED_SHORT | FLOAT
  | ARRAY_BUFFER | ELEMENT_ARRAY_BUFFER
  | STATIC_DRAW | STREAM_DRAW | DYNAMIC_DRAW
  | TRIANGLES | TRIANGLE_FAN | TRIANGLE_STRIP

text \<open>
  The calls that reach the graphics context, in the order they are issued. A buffer is
  named by its handle. \<open>BufferData\<close> and \<open>BufferSubData\<close> carry the handle of the
  buffer whose wrapper issued them.
\<close>

datatype gl_call =
    CreateBuffer nat
  | BindBuffer gl_enum nat
  | BufferData nat "int list" gl_enum
  | BufferSubData nat nat "int list"
  | EnableVertexAttribArray int
  | DisableVertexAttribArray int
  | VertexAttribPointer int int gl_enum bool int int
  | DrawArrays gl_enum jsnum jsnum
  | DrawElements gl_enum int gl_enum int

text \<open>
  The state the wrapper works on: the JavaScript arrays by reference (\<open>heap\<close>, a
  reference is a position in the list), the contents of every buffer by handle
  (\<open>store\<close>), and the trace of calls issued so far (\<open>calls\<close>).
\<close>

record gl_state =
  heap :: "int list list"
  store :: "int list list"
  calls :: "gl_call list"

text \<open>What the code throws: a plain string, or the TypeError of the runtime.\<close>

datatype error = Thrown string | TypeError

section \<open>Buffers\<close>

text \<open>
  A buffer wrapper remembers its handle, target, element type and usage hint.
\<close>

record buffer =
  b_handle :: nat
  b_target :: gl_enum
  b_type :: string
  b_usage :: gl_enum

text \<open>
  Modelled from the spec: the buffer constructors of the buffers module (not among the
  sources). "Buffers: wraps create/bind/data/subdata calls for array and element
  buffers, with usage-hint variants (static/stream/dynamic)"; an entity is "created on
  construction" and is wrapped "by an object that remembers its target/type". A new
  buffer has no contents. The callers below validate the type name before they
  construct a buffer.
\<close>

definition Buffer :: "gl_enum \<Rightarrow> string \<Rightarrow> gl_enum \<Rightarrow> gl_state \<Rightarrow> buffer \<times> gl_state" where
  "Buffer tgt ty usg s =
     (\<lparr>b_handle = length (store s), b_target = tgt, b_type = ty, b_usage = usg\<rparr>,
      s\<lparr>store := store s @ [[]], calls := calls s @ [CreateBuffer (length (store s))]\<rparr>)"

definition StaticArrayBuffer :: "string \<Rightarrow> gl_state \<Rightarrow> buffer \<times> gl_state" where
  "StaticArrayBuffer ty = Buffer ARRAY_BUFFER ty STATIC_DRAW"

definition StreamArrayBuffer :: "string \<Rightarrow> gl_state \<Rightarrow> buffer \<times> gl_state" where
  "StreamArrayBuffer ty = Buffer ARRAY_BUFFER ty STREAM_DRAW"

definition DynamicArrayBuffer :: "string \<Rightarrow> gl_state \<Rightarrow> buffer \<times> gl_state" where
  "DynamicArrayBuffer ty = Buffer ARRAY_BUFFER ty DYNAMIC_DRAW"

definition StaticElementArrayBuffer :: "string \<Rightarrow> gl_state \<Rightarrow> buffer \<times> gl_state" where
  "StaticElementArrayBuffer ty = Buffer ELEMENT_ARRAY_BUFFER ty STATIC_DRAW"

text \<open>
  Modelled from the spec: the method \<open>bind\<close> of a buffer (buffers module, not among
  the sources): a bind call on the buffer's target with this buffer.
\<close>

definition bind :: "buffer \<Rightarrow> gl_state \<Rightarrow> gl_state" where
  "bind b s = s\<lparr>calls := calls s @ [BindBuffer (b_target b) (b_handle b)]\<rparr>"

text \<open>
  Modelled from the spec: the method \<open>data\<close> of a buffer (buffers module, not among
  the sources): the upload that replaces the buffer's storage.
\<close>

definition data :: "buffer \<Rightarrow> int list \<Rightarrow> gl_state \<Rightarrow> gl_state" where
  "data b d s =
     s\<lparr>store := (store s)[b_handle b := d],
       calls := calls s @ [BufferData (b_handle b) d (b_usage b)]\<rparr>"

text \<open>
  Modelled from the spec: the method \<open>bindAndData\<close> of a buffer (buffers module, not
  among the sources): bind, then data.
\<close>

definition bindAndData :: "buffer \<Rightarrow> int list \<Rightarrow> gl_state \<Rightarrow> gl_state" where
  "bindAndData b d s = data b d (bind b s)"

text \<open>
  Modelled from the spec: the method \<open>subData\<close> of a buffer (buffers module, not among
  the sources): it "uploads ... into the index buffer's existing storage (sub-range
  update)". The storage keeps its size; an update that does not fit into it is
  rejected and leaves the storage as it is.
\<close>

definition overwrite :: "nat \<Rightarrow> int list \<Rightarrow> int list \<Rightarrow> int list" where
  "overwrite pos d old =
     (if pos + length d \<le> length old
      then take pos old @ d @ drop (pos + length d) old
      else old)"

definition subData :: "buffer \<Rightarrow> nat \<Rightarrow> int list \<Rightarrow> gl_state \<Rightarrow> gl_state" where
  "subData b pos d s =
     s\<lparr>store := (store s)[b_handle b := overwrite pos d (store s ! b_handle b)],
       calls := calls s @ [BufferSubData (b_handle b) pos d]\<rparr>"

section \<open>Element arrays\<close>

text \<open>The table \<open>types\<close> of \<open>context.ElementArray\<close>: GL type and byte size by name.\<close>

definition element_types :: "string \<Rightarrow> (gl_enum \<times> int) option" where
  "element_types =
     map_of [(''ubyte'', (UNSIGNED_BYTE, 1)), (''ushort'', (UNSIGNED_SHORT, 2))]"

definition element_error :: string where
  \<open>element_error = ''Invalid element type, must be either "ubyte" or "ushort".''\<close>

text \<open>
  An element array is its buffer extended with the draw helpers, which close over the
  reference \<open>indices\<close>, the type name after defaulting, and \<open>all\<close>, the length of the
  index list at construction.
\<close>

record element_array =
  ea_buffer :: buffer
  ea_indices :: nat
  ea_type :: string
  ea_all :: nat

text \<open>
  \<open>context.ElementArray(indices, type)\<close>. The argument \<open>indices\<close> is a reference to a
  JavaScript array; \<open>type\<close> is a string or omitted. \<^verbatim>\<open>!type\<close> holds for an omitted
  type and for the empty string.
\<close>

definition ElementArray ::
  "nat \<Rightarrow> string option \<Rightarrow> gl_state \<Rightarrow> (error + element_array) \<times> gl_state" where
  "ElementArray indices type s =
     (let type' = (case type of None \<Rightarrow> ''ushort''
                   | Some t \<Rightarrow> if t = '''' then ''ushort'' else t);
          count = length (heap s ! indices)
      in if \<not> hasOwnProperty element_types (Some type')
         then (Inl (Thrown element_error), s)
         else (let (buffer, s1) = StaticElementArrayBuffer type' s;
                   s2 = bindAndData buffer (heap s1 ! indices) s1
               in (Inr \<lparr>ea_buffer = buffer, ea_indices = indices,
                         ea_type = type', ea_all = count\<rparr>, s2)))"

text \<open>The call \<open>context.drawElements(mode, count, types[type].glType, offset * types[type].size)\<close>.\<close>

definition drawElements ::
  "gl_enum \<Rightarrow> element_array \<Rightarrow> int \<Rightarrow> int \<Rightarrow> gl_state \<Rightarrow> (error + unit) \<times> gl_state" where
  "drawElements mode ea offset count s =
     (case element_types (ea_type ea) of
        None \<Rightarrow> (Inl TypeError, s)
      | Some (glType, tsize) \<Rightarrow>
          (Inr (), s\<lparr>calls := calls s @ [DrawElements mode count glType (offset * tsize)]\<rparr>))"

definition ea_drawTriangles ::
  "element_array \<Rightarrow> jsnum \<Rightarrow> jsnum \<Rightarrow> gl_state \<Rightarrow> (error + unit) \<times> gl_state" where
  "ea_drawTriangles ea offset count s =
     (let offset' = or_default offset 0;
          count' = or_default count (int (ea_all ea))
      in drawElements TRIANGLES ea offset' count' s)"

definition ea_drawTriangleFan ::
  "element_array \<Rightarrow> jsnum \<Rightarrow> jsnum \<Rightarrow> gl_state \<Rightarrow> (error + unit) \<times> gl_state" where
  "ea_drawTriangleFan ea offset count s =
     (let offset' = or_default offset 0;
          count' = or_default count (int (ea_all ea))
      in drawElements TRIANGLE_FAN ea offset' count' s)"

definition ea_drawTriangleStrip ::
  "element_array \<Rightarrow> jsnum \<Rightarrow> jsnum \<Rightarrow> gl_state \<Rightarrow> (error + unit) \<times> gl_state" where
  "ea_drawTriangleStrip ea offset count s =
     (let offset' = or_default offset 0;
          count' = or_default count (int (ea_all ea))
      in drawElements TRIANGLE_STRIP ea offset' count' s)"

text \<open>
  JavaScript numbers are IEEE doubles. An integer of magnitude up to \<open>2 ^ 53\<close> is a
  double, and a sum of two integers within that range is exact. A larger sum is rounded
  to the nearest double, that is to 53 significant bits, a tie going to the even
  significand. (A sum of magnitude \<open>2 ^ 1024\<close> or more is \<open>Infinity\<close> in the source;
  the model has no such value.)
\<close>

function bit_length :: "int \<Rightarrow> nat" where
  "bit_length n = (if n \<le> 0 then 0 else Suc (bit_length (n div 2)))"
  by pat_completeness auto
termination
  by (relation "measure nat") auto

declare bit_length.simps [simp del]

definition round_double :: "int \<Rightarrow> int" where
  "round_double n =
     (if \<bar>n\<bar> \<le> 2 ^ 53 then n
      else (let m = \<bar>n\<bar>;
                q = 2 ^ (bit_length m - 53);
                lo = (m div q) * q;
                r = m mod q
            in sgn n * (if 2 * r < q then lo
                        else if q < 2 * r then lo + q
                        else if even (m div q) then lo else lo + q)))"

text \<open>The expression \<^verbatim>\<open>a + b\<close> on two numbers.\<close>

definition js_add :: "int \<Rightarrow> int \<Rightarrow> int" where
  "js_add a b = round_double (a + b)"

text \<open>
  The loop \<^verbatim>\<open>for (i = 0; i < shiftedIndices.length; ++i) shiftedIndices[i] += vertexOffset\<close>,
  started at \<open>i\<close>, on the contents of the array it updates.
\<close>

function shift_loop :: "int \<Rightarrow> nat \<Rightarrow> int list \<Rightarrow> int list" where
  "shift_loop vertexOffset i shiftedIndices =
     (if i < length shiftedIndices
      then shift_loop vertexOffset (Suc i)
             (shiftedIndices[i := js_add (shiftedIndices ! i) vertexOffset])
      else shiftedIndices)"
  by pat_completeness auto
termination
  by (relation "measure (\<lambda>(v, i, xs). length xs - i)") auto

text \<open>
  \<open>drawTrianglesBaseVertex(vertexOffset, offset, count)\<close>. The slice allocates a new
  array, at the next free reference, with the contents of \<open>indices\<close>; the loop updates
  that new array in place.
\<close>

definition ea_drawTrianglesBaseVertex ::
  "element_array \<Rightarrow> jsnum \<Rightarrow> jsnum \<Rightarrow> jsnum \<Rightarrow> gl_state \<Rightarrow> (error + unit) \<times> gl_state" where
  "ea_drawTrianglesBaseVertex ea vertexOffset offset count s =
     (let shiftedIndices = length (heap s);
          s0 = s\<lparr>heap := heap s @ [heap s ! ea_indices ea]\<rparr>;
          offset' = or_default offset 0;
          count' = or_default count (int (ea_all ea));
          vertexOffset' = or_default vertexOffset 0;
          s1 = (if vertexOffset' \<noteq> 0
                then (let s' = s0\<lparr>heap := (heap s0)[shiftedIndices :=
                                  shift_loop vertexOffset' 0 (heap s0 ! shiftedIndices)]\<rparr>
                      in subData (ea_buffer ea) 0 (heap s' ! shiftedIndices) s')
                else s0)
      in case drawElements TRIANGLES ea offset' count' s1 of
           (Inl e, s2) \<Rightarrow> (Inl e, s2)
         | (Inr _, s2) \<Rightarrow>
             (Inr (), if vertexOffset' \<noteq> 0
                      then subData (ea_buffer ea) 0 (heap s2 ! ea_indices ea) s2
                      else s2))"

text \<open>
  Calls of the draw helpers of one element array, and a run of such calls, which stops
  at the first call that throws.
\<close>

datatype ea_call =
    DrawTriangles jsnum jsnum
  | DrawTrianglesBaseVertex jsnum jsnum jsnum
  | DrawTriangleFan jsnum jsnum
  | DrawTriangleStrip jsnum jsnum

fun ea_invoke :: "element_array \<Rightarrow> ea_call \<Rightarrow> gl_state \<Rightarrow> (error + unit) \<times> gl_state" where
  "ea_invoke ea (DrawTriangles offset count) s = ea_drawTriangles ea offset count s"
| "ea_invoke ea (DrawTrianglesBaseVertex vertexOffset offset count) s =
     ea_drawTrianglesBaseVertex ea vertexOffset offset count s"
| "ea_invoke ea (DrawTriangleFan offset count) s = ea_drawTriangleFan ea offset count s"
| "ea_invoke ea (DrawTriangleStrip offset count) s = ea_drawTriangleStrip ea offset count s"

fun ea_run :: "element_array \<Rightarrow> ea_call list \<Rightarrow> gl_state \<Rightarrow> (error + unit) \<times> gl_state" where
  "ea_run ea [] s = (Inr (), s)"
| "ea_run ea (c # cs) s =
     (case ea_invoke ea c s of
        (Inl e, s') \<Rightarrow> (Inl e, s')
      | (Inr _, s') \<Rightarrow> ea_run ea cs s')"

text \<open>The calls a step has added to the trace, and the draw calls among them.\<close>

definition new_calls :: "gl_state \<Rightarrow> gl_state \<Rightarrow> gl_call list" where
  "new_calls s s' = drop (length (calls s)) (calls s')"

fun is_draw :: "gl_call \<Rightarrow> bool" where
  "is_draw (DrawElements mode count glType offset) = True"
| "is_draw (DrawArrays mode first count) = True"
| "is_draw _ = False"

section \<open>Attribute arrays\<close>

text \<open>The tables \<open>types\<close> and \<open>buffer_types\<close> of \<open>context.AttributeArray\<close>.\<close>

definition attribute_types :: "string \<Rightarrow> (gl_enum \<times> int) option" where
  "attribute_types =
     map_of [(''byte'', (BYTE, 1)), (''ubyte'', (UNSIGNED_BYTE, 1)),
             (''short'', (SHORT, 2)), (''ushort'', (UNSIGNED_SHORT, 2)),
             (''float'', (FLOAT, 4))]"

definition buffer_types :: "string \<Rightarrow> (string \<Rightarrow> gl_state \<Rightarrow> buffer \<times> gl_state) option" where
  "buffer_types =
     map_of [(''static'', StaticArrayBuffer), (''stream'', StreamArrayBuffer),
             (''dynamic'', DynamicArrayBuffer)]"

definition attribute_error :: string where
  \<open>attribute_error =
     ''Invalid attribute type, must be one of "byte", "ubyte", "short", "ushort" and "float".''\<close>

text \<open>
  An attribute array is its buffer extended with methods that close over the
  constructor's arguments \<open>index\<close>, \<open>type\<close>, \<open>num\<close> and \<open>normalize\<close>.
\<close>

record attribute_array =
  aa_buffer :: buffer
  aa_index :: int
  aa_type :: string
  aa_num :: int
  aa_normalize :: "bool option"

text \<open>
  \<open>context.AttributeArray(index, type, num, buffer_type, data, normalize)\<close>. The names
  \<open>type\<close> and \<open>buffer_type\<close> are strings or omitted; an omitted name is no property of
  either table. A \<open>buffer_type\<close> outside the table yields no buffer constructor, and
  the runtime raises TypeError where the code constructs the buffer and uses it.
\<close>

definition AttributeArray ::
  "int \<Rightarrow> string option \<Rightarrow> int \<Rightarrow> string option \<Rightarrow> int list \<Rightarrow> bool option \<Rightarrow> gl_state
   \<Rightarrow> (error + attribute_array) \<times> gl_state" where
  "AttributeArray index type num buffer_type d normalize' s =
     (if \<not> hasOwnProperty attribute_types type
      then (Inl (Thrown attribute_error), s)
      else (case Option.bind buffer_type buffer_types of
              None \<Rightarrow> (Inl TypeError, s)
            | Some new_buffer \<Rightarrow>
                (let (buffer, s1) = new_buffer (the type) s;
                     s2 = bindAndData buffer d s1
                 in (Inr \<lparr>aa_buffer = buffer, aa_index = index, aa_type = the type,
                           aa_num = num, aa_normalize = normalize'\<rparr>, s2))))"

text \<open>The call \<open>context.vertexAttribPointer(...)\<close> that three methods share word for word.\<close>

definition vertexAttribPointer ::
  "attribute_array \<Rightarrow> jsnum \<Rightarrow> jsnum \<Rightarrow> gl_state \<Rightarrow> (error + unit) \<times> gl_state" where
  "vertexAttribPointer aa stride offset s =
     (case attribute_types (aa_type aa) of
        None \<Rightarrow> (Inl TypeError, s)
      | Some (glType, tsize) \<Rightarrow>
          (Inr (), s\<lparr>calls := calls s @
             [VertexAttribPointer (aa_index aa) (aa_num aa) glType (not_not (aa_normalize aa))
                (or_default stride 0 * tsize) (or_default offset 0 * tsize)]\<rparr>))"

definition aa_enable :: "attribute_array \<Rightarrow> gl_state \<Rightarrow> gl_state" where
  "aa_enable aa s = s\<lparr>calls := calls s @ [EnableVertexAttribArray (aa_index aa)]\<rparr>"

definition aa_disable :: "attribute_array \<Rightarrow> gl_state \<Rightarrow> gl_state" where
  "aa_disable aa s = s\<lparr>calls := calls s @ [DisableVertexAttribArray (aa_index aa)]\<rparr>"

definition aa_pointer ::
  "attribute_array \<Rightarrow> jsnum \<Rightarrow> jsnum \<Rightarrow> gl_state \<Rightarrow> (error + unit) \<times> gl_state" where
  "aa_pointer aa stride offset s = vertexAttribPointer aa stride offset s"

definition aa_bindAndPointer ::
  "attribute_array \<Rightarrow> jsnum \<Rightarrow> jsnum \<Rightarrow> gl_state \<Rightarrow> (error + unit) \<times> gl_state" where
  "aa_bindAndPointer aa stride offset s =
     (let s1 = s\<lparr>calls := calls s @ [BindBuffer ARRAY_BUFFER (b_handle (aa_buffer aa))]\<rparr>
      in vertexAttribPointer aa stride offset s1)"

definition aa_enableBindAndPointer ::
  "attribute_array \<Rightarrow> jsnum \<Rightarrow> jsnum \<Rightarrow> gl_state \<Rightarrow> (error + unit) \<times> gl_state" where
  "aa_enableBindAndPointer aa stride offset s =
     (let s1 = s\<lparr>calls := calls s @ [EnableVertexAttribArray (aa_index aa)]\<rparr>;
          s2 = s1\<lparr>calls := calls s1 @ [BindBuffer ARRAY_BUFFER (b_handle (aa_buffer aa))]\<rparr>
      in vertexAttribPointer aa stride offset s2)"

text \<open>
  What the documentation of \<open>bindAndPointer\<close> promises: "Equivalent to calling \<open>bind\<close>
  and \<open>pointer\<close> subsequently". A throw of the first call ends the sequence.
\<close>

definition bind_then_pointer ::
  "attribute_array \<Rightarrow> jsnum \<Rightarrow> jsnum \<Rightarrow> gl_state \<Rightarrow> (error + unit) \<times> gl_state" where
  "bind_then_pointer aa stride offset s = aa_pointer aa stride offset (bind (aa_buffer aa) s)"

text \<open>The constructors \<open>context.AttributeArray1\<close> to \<open>context.AttributeArray4\<close>.\<close>

definition AttributeArray1 ::
  "int \<Rightarrow> string option \<Rightarrow> int list \<Rightarrow> bool option \<Rightarrow> gl_state
   \<Rightarrow> (error + attribute_array) \<times> gl_state" where
  "AttributeArray1 index type d normalize' =
     AttributeArray index type 1 (Some ''static'') d normalize'"

definition AttributeArray2 ::
  "int \<Rightarrow> string option \<Rightarrow> int list \<Rightarrow> bool option \<Rightarrow> gl_state
   \<Rightarrow> (error + attribute_array) \<times> gl_state" where
  "AttributeArray2 index type d normalize' =
     AttributeArray index type 2 (Some ''static'') d normalize'"

definition AttributeArray3 ::
  "int \<Rightarrow> string option \<Rightarrow> int list \<Rightarrow> bool option \<Rightarrow> gl_state
   \<Rightarrow> (error + attribute_array) \<times> gl_state" where
  "AttributeArray3 index type d normalize' =
     AttributeArray index type 3 (Some ''static'') d normalize'"

definition AttributeArray4 ::
  "int \<Rightarrow> string option \<Rightarrow> int list \<Rightarrow> bool option \<Rightarrow> gl_state
   \<Rightarrow> (error + attribute_array) \<times> gl_state" where
  "AttributeArray4 index type d normalize' =
     AttributeArray index type 4 (Some ''static'') d normalize'"

section \<open>Sets of attribute arrays\<close>

text \<open>
  The object \<open>context.AttributeArrays(count)\<close> returns closes over the list \<open>arrays\<close>,
  empty at first, and over \<open>count\<close>, which its draw helpers call \<open>all\<close>.
\<close>

record attribute_arrays =
  aas_arrays :: "attribute_array list"
  aas_all :: jsnum

definition AttributeArrays :: "jsnum \<Rightarrow> attribute_arrays" where
  "AttributeArrays count = \<lparr>aas_arrays = [], aas_all = count\<rparr>"

text \<open>
  The body every add method shares:
  \<^verbatim>\<open>arrays.push(new context.AttributeArrayN(arrays.length, type, data, normalize))\<close>.
  When the constructor throws, nothing is pushed.
\<close>

definition push_new ::
  "(int \<Rightarrow> string option \<Rightarrow> int list \<Rightarrow> bool option \<Rightarrow> gl_state
     \<Rightarrow> (error + attribute_array) \<times> gl_state)
   \<Rightarrow> attribute_arrays \<Rightarrow> string option \<Rightarrow> int list \<Rightarrow> bool option \<Rightarrow> gl_state
   \<Rightarrow> (error + attribute_arrays) \<times> gl_state" where
  "push_new AttributeArrayN aas type d normalize' s =
     (case AttributeArrayN (int (length (aas_arrays aas))) type d normalize' s of
        (Inl e, s') \<Rightarrow> (Inl e, s')
      | (Inr a, s') \<Rightarrow> (Inr (aas\<lparr>aas_arrays := aas_arrays aas @ [a]\<rparr>), s'))"

definition add1 ::
  "attribute_arrays \<Rightarrow> string option \<Rightarrow> int list \<Rightarrow> bool option \<Rightarrow> gl_state
   \<Rightarrow> (error + attribute_arrays) \<times> gl_state" where
  "add1 aas type d normalize' = push_new AttributeArray1 aas type d normalize'"

definition add1b ::
  "attribute_arrays \<Rightarrow> int list \<Rightarrow> bool option \<Rightarrow> gl_state
   \<Rightarrow> (error + attribute_arrays) \<times> gl_state" where
  "add1b aas d normalize' = push_new AttributeArray1 aas (Some ''byte'') d normalize'"

definition add1ub ::
  "attribute_arrays \<Rightarrow> int list \<Rightarrow> bool option \<Rightarrow> gl_state
   \<Rightarrow> (error + attribute_arrays) \<times> gl_state" where
  "add1ub aas d normalize' = push_new AttributeArray1 aas (Some ''ubyte'') d normalize'"

definition add1s ::
  "attribute_arrays \<Rightarrow> int list \<Rightarrow> bool option \<Rightarrow> gl_state
   \<Rightarrow> (error + attribute_arrays) \<times> gl_state" where
  "add1s aas d normalize' = push_new AttributeArray1 aas (Some ''short'') d normalize'"

definition add1us ::
  "attribute_arrays \<Rightarrow> int list \<Rightarrow> bool option \<Rightarrow> gl_state
   \<Rightarrow> (error + attribute_arrays) \<times> gl_state" where
  "add1us aas d normalize' = push_new AttributeArray1 aas (Some ''ushort'') d normalize'"

definition add1f ::
  "attribute_arrays \<Rightarrow> int list \<Rightarrow> bool option \<Rightarrow> gl_state
   \<Rightarrow> (error + attribute_arrays) \<times> gl_state" where
  "add1f aas d normalize' = push_new AttributeArray1 aas (Some ''float'') d normalize'"

definition add2 ::
  "attribute_arrays \<Rightarrow> string option \<Rightarrow> int list \<Rightarrow> bool option \<Rightarrow> gl_state
   \<Rightarrow> (error + attribute_arrays) \<times> gl_state" where
  "add2 aas type d normalize' = push_new AttributeArray2 aas type d normalize'"

definition add2b ::
  "attribute_arrays \<Rightarrow> int list \<Rightarrow> bool option \<Rightarrow> gl_state
   \<Rightarrow> (error + attribute_arrays) \<times> gl_state" where
  "add2b aas d normalize' = push_new AttributeArray2 aas (Some ''byte'') d normalize'"

definition add2ub ::
  "attribute_arrays \<Rightarrow> int list \<Rightarrow> bool option \<Rightarrow> gl_state
   \<Rightarrow> (error + attribute_arrays) \<times> gl_state" where
  "add2ub aas d normalize' = push_new AttributeArray2 aas (Some ''ubyte'') d normalize'"

definition add2s ::
  "attribute_arrays \<Rightarrow> int list \<Rightarrow> bool option \<Rightarrow> gl_state
   \<Rightarrow> (error + attribute_arrays) \<times> gl_state" where
  "add2s aas d normalize' = push_new AttributeArray2 aas (Some ''short'') d normalize'"

definition add2us ::
  "attribute_arrays \<Rightarrow> int list \<Rightarrow> bool option \<Rightarrow> gl_state
   \<Rightarrow> (error + attribute_arrays) \<times> gl_state" where
  "add2us aas d normalize' = push_new AttributeArray2 aas (Some ''ushort'') d normalize'"

definition add2f ::
  "attribute_arrays \<Rightarrow> int list \<Rightarrow> bool option \<Rightarrow> gl_state
   \<Rightarrow> (error + attribute_arrays) \<times> gl_state" where
  "add2f aas d normalize' = push_new AttributeArray2 aas (Some ''float'') d normalize'"

definition add3 ::
  "attribute_arrays \<Rightarrow> string option \<Rightarrow> int list \<Rightarrow> bool option \<Rightarrow> gl_state
   \<Rightarrow> (error + attribute_arrays) \<times> gl_state" where
  "add3 aas type d normalize' = push_new AttributeArray3 aas type d normalize'"

definition add3b ::
  "attribute_arrays \<Rightarrow> int list \<Rightarrow> bool option \<Rightarrow> gl_state
   \<Rightarrow> (error + attribute_arrays) \<times> gl_state" where
  "add3b aas d normalize' = push_new AttributeArray3 aas (Some ''byte'') d normalize'"

definition add3ub ::
  "attribute_arrays \<Rightarrow> int list \<Rightarrow> bool option \<Rightarrow> gl_state
   \<Rightarrow> (error + attribute_arrays) \<times> gl_state" where
  "add3ub aas d normalize' = push_new AttributeArray3 aas (Some ''ubyte'') d normalize'"

definition add3s ::
  "attribute_arrays \<Rightarrow> int list \<Rightarrow> bool option \<Rightarrow> gl_state
   \<Rightarrow> (error + attribute_arrays) \<times> gl_state" where
  "add3s aas d normalize' = push_new AttributeArray3 aas (Some ''short'') d normalize'"

definition add3us ::
  "attribute_arrays \<Rightarrow> int list \<Rightarrow> bool option \<Rightarrow> gl_state
   \<Rightarrow> (error + attribute_arrays) \<times> gl_state" where
  "add3us aas d normalize' = push_new AttributeArray3 aas (Some ''ushort'') d normalize'"

definition add3f ::
  "attribute_arrays \<Rightarrow> int list \<Rightarrow> bool option \<Rightarrow> gl_state
   \<Rightarrow> (error + attribute_arrays) \<times> gl_state" where
  "add3f aas d normalize' = push_new AttributeArray3 aas (Some ''float'') d normalize'"

definition add4 ::
  "attribute_arrays \<Rightarrow> string option \<Rightarrow> int list \<Rightarrow> bool option \<Rightarrow> gl_state
   \<Rightarrow> (error + attribute_arrays) \<times> gl_state" where
  "add4 aas type d normalize' = push_new AttributeArray4 aas type d normalize'"

definition add4b ::
  "attribute_arrays \<Rightarrow> int list \<Rightarrow> bool option \<Rightarrow> gl_state
   \<Rightarrow> (error + attribute_arrays) \<times> gl_state" where
  "add4b aas d normalize' = push_new AttributeArray4 aas (Some ''byte'') d normalize'"

definition add4ub ::
  "attribute_arrays \<Rightarrow> int list \<Rightarrow> bool option \<Rightarrow> gl_state
   \<Rightarrow> (error + attribute_arrays) \<times> gl_state" where
  "add4ub aas d normalize' = push_new AttributeArray4 aas (Some ''ubyte'') d normalize'"

definition add4s ::
  "attribute_arrays \<Rightarrow> int list \<Rightarrow> bool option \<Rightarrow> gl_state
   \<Rightarrow> (error + attribute_arrays) \<times> gl_state" where
  "add4s aas d normalize' = push_new AttributeArray4 aas (Some ''short'') d normalize'"

definition add4us ::
  "attribute_arrays \<Rightarrow> int list \<Rightarrow> bool option \<Rightarrow> gl_state
   \<Rightarrow> (error + attribute_arrays) \<times> gl_state" where
  "add4us aas d normalize' = push_new AttributeArray4 aas (Some ''ushort'') d normalize'"

definition add4f ::
  "attribute_arrays \<Rightarrow> int list \<Rightarrow> bool option \<Rightarrow> gl_state
   \<Rightarrow> (error + attribute_arrays) \<times> gl_state" where
  "add4f aas d normalize' = push_new AttributeArray4 aas (Some ''float'') d normalize'"

text \<open>A call of one of the add methods, with its arguments.\<close>

datatype add_call =
    Add1 "string option" "int list" "bool option"
  | Add1b "int list" "bool option"
  | Add1ub "int list" "bool option"
  | Add1s "int list" "bool option"
  | Add1us "int list" "bool option"
  | Add1f "int list" "bool option"
  | Add2 "string option" "int list" "bool option"
  | Add2b "int list" "bool option"
  | Add2ub "int list" "bool option"
  | Add2s "int list" "bool option"
  | Add2us "int list" "bool option"
  | Add2f "int list" "bool option"
  | Add3 "string option" "int list" "bool option"
  | Add3b "int list" "bool option"
  | Add3ub "int list" "bool option"
  | Add3s "int list" "bool option"
  | Add3us "int list" "bool option"
  | Add3f "int list" "bool option"
  | Add4 "string option" "int list" "bool option"
  | Add4b "int list" "bool option"
  | Add4ub "int list" "bool option"
  | Add4s "int list" "bool option"
  | Add4us "int list" "bool option"
  | Add4f "int list" "bool option"

fun aas_add :: "attribute_arrays \<Rightarrow> add_call \<Rightarrow> gl_state \<Rightarrow> (error + attribute_arrays) \<times> gl_state" where
  "aas_add aas (Add1 type d normalize') s = add1 aas type d normalize' s"
| "aas_add aas (Add1b d normalize') s = add1b aas d normalize' s"
| "aas_add aas (Add1ub d normalize') s = add1ub aas d normalize' s"
| "aas_add aas (Add1s d normalize') s = add1s aas d normalize' s"
| "aas_add aas (Add1us d normalize') s = add1us aas d normalize' s"
| "aas_add aas (Add1f d normalize') s = add1f aas d normalize' s"
| "aas_add aas (Add2 type d normalize') s = add2 aas type d normalize' s"
| "aas_add aas (Add2b d normalize') s = add2b aas d normalize' s"
| "aas_add aas (Add2ub d normalize') s = add2ub aas d normalize' s"
| "aas_add aas (Add2s d normalize') s = add2s aas d normalize' s"
| "aas_add aas (Add2us d normalize') s = add2us aas d normalize' s"
| "aas_add aas (Add2f d normalize') s = add2f aas d normalize' s"
| "aas_add aas (Add3 type d normalize') s = add3 aas type d normalize' s"
| "aas_add aas (Add3b d normalize') s = add3b aas d normalize' s"
| "aas_add aas (Add3ub d normalize') s = add3ub aas d normalize' s"
| "aas_add aas (Add3s d normalize') s = add3s aas d normalize' s"
| "aas_add aas (Add3us d normalize') s = add3us aas d normalize' s"
| "aas_add aas (Add3f d normalize') s = add3f aas d normalize' s"
| "aas_add aas (Add4 type d normalize') s = add4 aas type d normalize' s"
| "aas_add aas (Add4b d normalize') s = add4b aas d normalize' s"
| "aas_add aas (Add4ub d normalize') s = add4ub aas d normalize' s"
| "aas_add aas (Add4s d normalize') s = add4s aas d normalize' s"
| "aas_add aas (Add4us d normalize') s = add4us aas d normalize' s"
| "aas_add aas (Add4f d normalize') s = add4f aas d normalize' s"

text \<open>
  A run of add calls on one set. A call that throws leaves the set as it was, and the
  caller goes on; the run counts the calls that returned.
\<close>

fun aas_run ::
  "add_call list \<Rightarrow> attribute_arrays \<Rightarrow> gl_state \<Rightarrow> nat \<times> attribute_arrays \<times> gl_state" where
  "aas_run [] aas s = (0, aas, s)"
| "aas_run (c # cs) aas s =
     (case aas_add aas c s of
        (Inl e, s') \<Rightarrow> aas_run cs aas s'
      | (Inr aas', s') \<Rightarrow> (case aas_run cs aas' s' of (n, r) \<Rightarrow> (Suc n, r)))"

text \<open>
  The loops of \<open>enable\<close> and \<open>disable\<close>:
  \<^verbatim>\<open>for (var i = 0; i < arrays.length; i++) context.enableVertexAttribArray(i)\<close>,
  started at \<open>i\<close>.
\<close>

function enable_loop :: "nat \<Rightarrow> attribute_arrays \<Rightarrow> gl_state \<Rightarrow> gl_state" where
  "enable_loop i aas s =
     (if i < length (aas_arrays aas)
      then enable_loop (Suc i) aas (s\<lparr>calls := calls s @ [EnableVertexAttribArray (int i)]\<rparr>)
      else s)"
  by pat_completeness auto
termination
  by (relation "measure (\<lambda>(i, aas, s). length (aas_arrays aas) - i)") auto

function disable_loop :: "nat \<Rightarrow> attribute_arrays \<Rightarrow> gl_state \<Rightarrow> gl_state" where
  "disable_loop i aas s =
     (if i < length (aas_arrays aas)
      then disable_loop (Suc i) aas (s\<lparr>calls := calls s @ [DisableVertexAttribArray (int i)]\<rparr>)
      else s)"
  by pat_completeness auto
termination
  by (relation "measure (\<lambda>(i, aas, s). length (aas_arrays aas) - i)") auto

definition aas_enable :: "attribute_arrays \<Rightarrow> gl_state \<Rightarrow> gl_state" where
  "aas_enable aas s = enable_loop 0 aas s"

definition aas_disable :: "attribute_arrays \<Rightarrow> gl_state \<Rightarrow> gl_state" where
  "aas_disable aas s = disable_loop 0 aas s"

text \<open>
  The draw helpers of a set read \<^verbatim>\<open>arguments.length\<close>, so they take the list of the
  actual arguments; \<open>offset\<close> and \<open>count\<close> are its first two entries.
\<close>

definition drawArrays :: "gl_enum \<Rightarrow> attribute_arrays \<Rightarrow> jsnum list \<Rightarrow> gl_state \<Rightarrow> gl_state" where
  "drawArrays mode aas args s =
     (let offset = arg args 0;
          count = arg args 1;
          (offset', count') =
            (if length args < 2
             then (if length args < 1 then (Num 0, aas_all aas) else (offset, aas_all aas))
             else (offset, count))
      in s\<lparr>calls := calls s @ [DrawArrays mode offset' count']\<rparr>)"

definition aas_drawTriangles :: "attribute_arrays \<Rightarrow> jsnum list \<Rightarrow> gl_state \<Rightarrow> gl_state" where
  "aas_drawTriangles aas args s = drawArrays TRIANGLES aas args s"

definition aas_drawTriangleFan :: "attribute_arrays \<Rightarrow> jsnum list \<Rightarrow> gl_state \<Rightarrow> gl_state" where
  "aas_drawTriangleFan aas args s = drawArrays TRIANGLE_FAN aas args s"

definition aas_drawTriangleStrip :: "attribute_arrays \<Rightarrow> jsnum list \<Rightarrow> gl_state \<Rightarrow> gl_state" where
  "aas_drawTriangleStrip aas args s = drawArrays TRIANGLE_STRIP aas args s"

section \<open>Invariant and example values\<close>

text \<open>
  What holds of an element array between calls of its draw helpers: \<open>indices\<close> refers
  to an allocated array with the contents \<open>orig\<close>, the buffer exists and holds \<open>orig\<close>,
  and the type name is an entry of the table.
\<close>

definition ea_inv :: "element_array \<Rightarrow> int list \<Rightarrow> gl_state \<Rightarrow> bool" where
  "ea_inv ea orig s =
     (ea_indices ea < length (heap s) \<and> heap s ! ea_indices ea = orig \<and>
      b_handle (ea_buffer ea) < length (store s) \<and>
      store s ! b_handle (ea_buffer ea) = orig \<and>
      hasOwnProperty element_types (Some (ea_type ea)))"

text \<open>A state with one JavaScript array, and the element array built from it.\<close>

definition ex_state0 :: gl_state where
  "ex_state0 = \<lparr>heap = [[0, 1, 2]], store = [], calls = []\<rparr>"

definition ex_array :: element_array where
  "ex_array =
     \<lparr>ea_buffer = \<lparr>b_handle = 0, b_target = ELEMENT_ARRAY_BUFFER,
                    b_type = ''ushort'', b_usage = STATIC_DRAW\<rparr>,
      ea_indices = 0, ea_type = ''ushort'', ea_all = 3\<rparr>"

definition ex_state1 :: gl_state where
  "ex_state1 =
     \<lparr>heap = [[0, 1, 2]], store = [[0, 1, 2]],
      calls = [CreateBuffer 0, BindBuffer ELEMENT_ARRAY_BUFFER 0,
               BufferData 0 [0, 1, 2] STATIC_DRAW]\<rparr>"

text \<open>
  A state whose only JavaScript array has an entry next to \<open>2 ^ 53\<close>, and the element
  array built from it.
\<close>

definition ex_large0 :: gl_state where
  "ex_large0 = \<lparr>heap = [[9007199254740991, 1]], store = [], calls = []\<rparr>"

definition ex_large_array :: element_array where
  "ex_large_array =
     \<lparr>ea_buffer = \<lparr>b_handle = 0, b_target = ELEMENT_ARRAY_BUFFER,
                    b_type = ''ushort'', b_usage = STATIC_DRAW\<rparr>,
      ea_indices = 0, ea_type = ''ushort'', ea_all = 2\<rparr>"

definition ex_large :: gl_state where
  "ex_large =
     \<lparr>heap = [[9007199254740991, 1]], store = [[9007199254740991, 1]],
      calls = [CreateBuffer 0, BindBuffer ELEMENT_ARRAY_BUFFER 0,
               BufferData 0 [9007199254740991, 1] STATIC_DRAW]\<rparr>"

text \<open>
  What holds of a set of attribute arrays between calls of its add methods: the array at
  position \<open>k\<close> of \<open>arrays\<close> was built with the index \<open>k\<close>.
\<close>

definition slots_ok :: "attribute_arrays \<Rightarrow> bool" where
  "slots_ok aas = (map aa_index (aas_arrays aas) = map int [0..<length (aas_arrays aas)])"

text \<open>An attribute array built in the example state, and a run of three add calls.\<close>

definition ex_attribute :: attribute_array where
  "ex_attribute =
     \<lparr>aa_buffer = \<lparr>b_handle = 0, b_target = ARRAY_BUFFER,
                    b_type = ''float'', b_usage = STATIC_DRAW\<rparr>,
      aa_index = 0, aa_type = ''float'', aa_num = 3, aa_normalize = None\<rparr>"

definition ex_state2 :: gl_state where
  "ex_state2 =
     \<lparr>heap = [[0, 1, 2]], store = [[1, 2, 3]],
      calls = [CreateBuffer 0, BindBuffer ARRAY_BUFFER 0, BufferData 0 [1, 2, 3] STATIC_DRAW]\<rparr>"

definition ex_adds :: "add_call list" where
  "ex_adds = [Add3f [1, 2, 3] None, Add1 (Some ''double'') [4] None,
              Add2 (Some ''ubyte'') [5, 6] (Some True)]"

declare shift_loop.simps [simp del]
declare enable_loop.simps [simp del]
declare disable_loop.simps [simp del]

section \<open>Element arrays: the base-vertex draw\<close>

lemma js_add_exact: "\<bar>a + b\<bar> \<le> 2 ^ 53 \<Longrightarrow> js_add a b = a + b"
  by (simp add: js_add_def round_double_def)

lemma shift_loop_take_drop:
  "shift_loop v i xs = take i xs @ map (\<lambda>x. js_add x v) (drop i xs)"
proof (induction v i xs rule: shift_loop.induct)
  case (1 v i xs)
  show ?case
  proof (cases "i < length xs")
    case True
    have "shift_loop v i xs = shift_loop v (Suc i) (xs[i := js_add (xs ! i) v])"
      using True by (subst shift_loop.simps) simp
    also have "\<dots> = take (Suc i) (xs[i := js_add (xs ! i) v])
                     @ map (\<lambda>x. js_add x v) (drop (Suc i) (xs[i := js_add (xs ! i) v]))"
      using "1.IH" True by simp
    also have "\<dots> = take i xs @ map (\<lambda>x. js_add x v) (drop i xs)"
      using True by (simp add: take_Suc_conv_app_nth Cons_nth_drop_Suc [symmetric])
    finally show ?thesis .
  next
    case False
    then show ?thesis by (subst shift_loop.simps) simp
  qed
qed

lemma shift_loop_map: "shift_loop v 0 xs = map (\<lambda>x. js_add x v) xs"
  by (simp add: shift_loop_take_drop)

lemma shift_loop_exact:
  "\<forall>x \<in> set xs. \<bar>x + v\<bar> \<le> 2 ^ 53 \<Longrightarrow> shift_loop v 0 xs = map (\<lambda>x. x + v) xs"
  by (simp add: shift_loop_map js_add_exact)

lemma overwrite_all: "length d = length old \<Longrightarrow> overwrite 0 d old = d"
  by (simp add: overwrite_def)

lemma drawElements_ok:
  "element_types (ea_type ea) = Some (glType, tsize) \<Longrightarrow>
   drawElements mode ea offset count s =
     (Inr (), s\<lparr>calls := calls s @ [DrawElements mode count glType (offset * tsize)]\<rparr>)"
  by (simp add: drawElements_def)

lemma drawTrianglesBaseVertex_calls:
  assumes "ea_indices ea < length (heap s)"
    and "element_types (ea_type ea) = Some (glType, tsize)"
    and "v \<noteq> 0"
  shows "fst (ea_drawTrianglesBaseVertex ea (Num v) offset count s) = Inr () \<and>
         calls (snd (ea_drawTrianglesBaseVertex ea (Num v) offset count s)) =
           calls s @
           [BufferSubData (b_handle (ea_buffer ea)) 0
              (map (\<lambda>x. js_add x v) (heap s ! ea_indices ea)),
            DrawElements TRIANGLES (or_default count (int (ea_all ea))) glType
              (or_default offset 0 * tsize),
            BufferSubData (b_handle (ea_buffer ea)) 0 (heap s ! ea_indices ea)]"
  using assms
  by (simp add: ea_drawTrianglesBaseVertex_def Let_def drawElements_ok subData_def
      shift_loop_map nth_append)

text \<open>
  C1, as amended: for every index list and every non-zero \<open>vertexOffset\<close> such that
  each entry plus \<open>vertexOffset\<close> has magnitude at most \<open>2 ^ 53\<close> (the sum is then exact
  in JavaScript numbers), the call \<open>drawTrianglesBaseVertex(vertexOffset, offset, count)\<close>
  issues exactly three calls, in this order: a sub-range upload at position 0 of the
  index list with \<open>vertexOffset\<close> added to every entry, the \<open>drawElements\<close> call, and a
  sub-range upload at position 0 of the index list itself.
\<close>

theorem drawTrianglesBaseVertex_shifts_then_restores:
  assumes "ea_indices ea < length (heap s)"
    and "element_types (ea_type ea) = Some (glType, tsize)"
    and "v \<noteq> 0"
    and "\<forall>x \<in> set (heap s ! ea_indices ea). \<bar>x + v\<bar> \<le> 2 ^ 53"
  shows "fst (ea_drawTrianglesBaseVertex ea (Num v) offset count s) = Inr () \<and>
         calls (snd (ea_drawTrianglesBaseVertex ea (Num v) offset count s)) =
           calls s @
           [BufferSubData (b_handle (ea_buffer ea)) 0
              (map (\<lambda>x. x + v) (heap s ! ea_indices ea)),
            DrawElements TRIANGLES (or_default count (int (ea_all ea))) glType
              (or_default offset 0 * tsize),
            BufferSubData (b_handle (ea_buffer ea)) 0 (heap s ! ea_indices ea)]"
proof -
  have "map (\<lambda>x. js_add x v) (heap s ! ea_indices ea) = map (\<lambda>x. x + v) (heap s ! ea_indices ea)"
    using assms(4) by (simp add: js_add_exact)
  with drawTrianglesBaseVertex_calls [OF assms(1,2,3), of offset count] show ?thesis
    by simp
qed

theorem drawTrianglesBaseVertex_shifts_then_restores_witness:
  "fst (ea_drawTrianglesBaseVertex ex_array (Num 10) Undefined Undefined ex_state1) = Inr () \<and>
   calls (snd (ea_drawTrianglesBaseVertex ex_array (Num 10) Undefined Undefined ex_state1)) =
     calls ex_state1 @
     [BufferSubData 0 0 [10, 11, 12],
      DrawElements TRIANGLES 3 UNSIGNED_SHORT 0,
      BufferSubData 0 0 [0, 1, 2]]"
proof -
  have r: "ea_indices ex_array < length (heap ex_state1)"
    by (simp add: ex_array_def ex_state1_def)
  have ty: "element_types (ea_type ex_array) = Some (UNSIGNED_SHORT, 2)"
    by (simp add: ex_array_def element_types_def)
  have v: "(10::int) \<noteq> 0" by simp
  have small: "\<forall>x \<in> set (heap ex_state1 ! ea_indices ex_array). \<bar>x + 10\<bar> \<le> 2 ^ 53"
    by (simp add: ex_array_def ex_state1_def)
  show ?thesis
    using drawTrianglesBaseVertex_shifts_then_restores [OF r ty v small, of Undefined Undefined]
    by (simp add: ex_array_def ex_state1_def)
qed

text \<open>
  C1, as stated, fails for an index list with a large entry: with the index list
  \<open>[9007199254740991, 1]\<close> and \<open>vertexOffset = 2\<close> the first upload carries
  \<open>9007199254740992\<close> for the first entry, which is not that entry increased by 2.
\<close>

theorem drawTrianglesBaseVertex_large_entry_counterexample:
  "ElementArray 0 None ex_large0 = (Inr ex_large_array, ex_large) \<and>
   new_calls ex_large
     (snd (ea_drawTrianglesBaseVertex ex_large_array (Num 2) Undefined Undefined ex_large)) =
     [BufferSubData 0 0 [9007199254740992, 3],
      DrawElements TRIANGLES 2 UNSIGNED_SHORT 0,
      BufferSubData 0 0 [9007199254740991, 1]] \<and>
   (9007199254740991::int) + 2 = 9007199254740993 \<and> (1::int) + 2 = 3"
proof -
  have c: "ElementArray 0 None ex_large0 = (Inr ex_large_array, ex_large)"
    by (simp add: ElementArray_def Let_def hasOwnProperty_def element_types_def
        StaticElementArrayBuffer_def Buffer_def bindAndData_def bind_def data_def
        ex_large0_def ex_large_array_def ex_large_def)
  have r: "ea_indices ex_large_array < length (heap ex_large)"
    by (simp add: ex_large_array_def ex_large_def)
  have ty: "element_types (ea_type ex_large_array) = Some (UNSIGNED_SHORT, 2)"
    by (simp add: ex_large_array_def element_types_def)
  have v: "(2::int) \<noteq> 0" by simp
  have a: "js_add 9007199254740991 2 = 9007199254740992" by code_simp
  have b: "js_add 1 2 = 3" by (simp add: js_add_exact)
  have "new_calls ex_large
     (snd (ea_drawTrianglesBaseVertex ex_large_array (Num 2) Undefined Undefined ex_large)) =
     [BufferSubData 0 0 [9007199254740992, 3],
      DrawElements TRIANGLES 2 UNSIGNED_SHORT 0,
      BufferSubData 0 0 [9007199254740991, 1]]"
    using drawTrianglesBaseVertex_calls [OF r ty v, of Undefined Undefined]
    by (simp add: new_calls_def ex_large_array_def ex_large_def a b)
  with c show ?thesis by simp
qed

lemma new_calls_append [simp]: "new_calls s (s'\<lparr>calls := calls s @ xs\<rparr>) = xs"
  by (simp add: new_calls_def)

lemma hasOwnProperty_element_types:
  "hasOwnProperty element_types (Some t) \<longleftrightarrow> t = ''ubyte'' \<or> t = ''ushort''"
  by (simp add: hasOwnProperty_def element_types_def)

lemma element_types_cases:
  "hasOwnProperty element_types (Some t) \<Longrightarrow>
   \<exists>glType tsize. element_types t = Some (glType, tsize)"
  by (auto simp: hasOwnProperty_def split: option.splits)

lemma ElementArray_Inr:
  assumes "ElementArray indices type s = (Inr ea, s1)"
  shows "ea_indices ea = indices"
    and "ea_all ea = length (heap s ! indices)"
    and "hasOwnProperty element_types (Some (ea_type ea))"
    and "b_handle (ea_buffer ea) = length (store s)"
    and "b_target (ea_buffer ea) = ELEMENT_ARRAY_BUFFER"
    and "b_type (ea_buffer ea) = ea_type ea"
    and "heap s1 = heap s"
    and "store s1 = store s @ [heap s ! indices]"
    and "calls s1 = calls s @ [CreateBuffer (length (store s)),
           BindBuffer ELEMENT_ARRAY_BUFFER (length (store s)),
           BufferData (length (store s)) (heap s ! indices) STATIC_DRAW]"
  using assms
  by (auto simp: ElementArray_def Let_def StaticElementArrayBuffer_def Buffer_def
      bindAndData_def bind_def data_def split: if_splits)

lemma ElementArray_establishes_inv:
  assumes "indices < length (heap s)" and "ElementArray indices type s = (Inr ea, s1)"
  shows "ea_inv ea (heap s ! indices) s1"
  using assms(1) ElementArray_Inr [OF assms(2)] by (simp add: ea_inv_def)

lemma drawElements_inv:
  assumes "ea_inv ea orig s"
  shows "fst (drawElements mode ea offset count s) = Inr ()"
    and "ea_inv ea orig (snd (drawElements mode ea offset count s))"
    and "heap (snd (drawElements mode ea offset count s)) = heap s"
proof -
  from assms have "hasOwnProperty element_types (Some (ea_type ea))"
    by (simp add: ea_inv_def)
  from element_types_cases [OF this]
  obtain glType tsize where "element_types (ea_type ea) = Some (glType, tsize)" by blast
  then have eq: "drawElements mode ea offset count s =
      (Inr (), s\<lparr>calls := calls s @ [DrawElements mode count glType (offset * tsize)]\<rparr>)"
    by (rule drawElements_ok)
  show "fst (drawElements mode ea offset count s) = Inr ()" by (simp add: eq)
  show "ea_inv ea orig (snd (drawElements mode ea offset count s))"
    using assms by (simp add: eq ea_inv_def)
  show "heap (snd (drawElements mode ea offset count s)) = heap s" by (simp add: eq)
qed

lemma drawTrianglesBaseVertex_inv:
  assumes "ea_inv ea orig s"
  shows "fst (ea_drawTrianglesBaseVertex ea vertexOffset offset count s) = Inr ()"
    and "ea_inv ea orig (snd (ea_drawTrianglesBaseVertex ea vertexOffset offset count s))"
    and "take (length (heap s))
           (heap (snd (ea_drawTrianglesBaseVertex ea vertexOffset offset count s))) = heap s"
proof -
  from assms have "hasOwnProperty element_types (Some (ea_type ea))"
    by (simp add: ea_inv_def)
  from element_types_cases [OF this]
  obtain glType tsize where ty: "element_types (ea_type ea) = Some (glType, tsize)" by blast
  from assms have r: "ea_indices ea < length (heap s)"
    and h: "b_handle (ea_buffer ea) < length (store s)"
    and st: "store s ! b_handle (ea_buffer ea) = orig"
    and hp: "heap s ! ea_indices ea = orig"
    by (simp_all add: ea_inv_def)
  show "fst (ea_drawTrianglesBaseVertex ea vertexOffset offset count s) = Inr ()"
    by (simp add: ea_drawTrianglesBaseVertex_def Let_def drawElements_ok [OF ty])
  show "ea_inv ea orig (snd (ea_drawTrianglesBaseVertex ea vertexOffset offset count s))"
    using r h st hp assms
    by (simp add: ea_drawTrianglesBaseVertex_def Let_def drawElements_ok ty subData_def
        shift_loop_map nth_append overwrite_all ea_inv_def)
  show "take (length (heap s))
           (heap (snd (ea_drawTrianglesBaseVertex ea vertexOffset offset count s))) = heap s"
    by (simp add: ea_drawTrianglesBaseVertex_def Let_def drawElements_ok ty subData_def)
qed

lemma ea_invoke_inv:
  assumes "ea_inv ea orig s"
  shows "fst (ea_invoke ea c s) = Inr ()" and "ea_inv ea orig (snd (ea_invoke ea c s))"
  using drawElements_inv(1,2) [OF assms] drawTrianglesBaseVertex_inv(1,2) [OF assms]
  by (cases c; simp add: ea_drawTriangles_def ea_drawTriangleFan_def
      ea_drawTriangleStrip_def Let_def)+

lemma ea_run_inv:
  "ea_inv ea orig s \<Longrightarrow>
   fst (ea_run ea cs s) = Inr () \<and> ea_inv ea orig (snd (ea_run ea cs s))"
proof (induction cs arbitrary: s)
  case Nil
  then show ?case by simp
next
  case (Cons c cs)
  obtain r s' where step: "ea_invoke ea c s = (r, s')" by (cases "ea_invoke ea c s")
  with ea_invoke_inv [OF Cons.prems, of c] have "r = Inr ()" and "ea_inv ea orig s'"
    by simp_all
  with Cons.IH [of s'] step show ?case by simp
qed

text \<open>
  The constructor leaves the buffer holding the index list, and every draw helper of the
  element array keeps it so: after the constructor and any calls of the draw helpers,
  \<open>drawTrianglesBaseVertex\<close> returns with the buffer holding the index list that was
  passed to the constructor.
\<close>

lemma constructed_array_keeps_buffer:
  assumes "indices < length (heap s0)"
    and "ElementArray indices type s0 = (Inr ea, s1)"
    and "ea_run ea cs s1 = (r, s2)"
    and "ea_drawTrianglesBaseVertex ea vertexOffset offset count s2 = (r', s3)"
  shows "r = Inr () \<and> r' = Inr () \<and>
         store s3 ! b_handle (ea_buffer ea) = heap s0 ! indices \<and>
         heap s3 ! indices = heap s0 ! indices \<and>
         take (length (heap s2)) (heap s3) = heap s2"
proof -
  have inv1: "ea_inv ea (heap s0 ! indices) s1"
    using assms(1,2) by (rule ElementArray_establishes_inv)
  have idx: "ea_indices ea = indices"
    using assms(2) by (rule ElementArray_Inr(1))
  from ea_run_inv [OF inv1, of cs] assms(3)
  have r: "r = Inr ()" and inv2: "ea_inv ea (heap s0 ! indices) s2" by simp_all
  from drawTrianglesBaseVertex_inv [OF inv2, of vertexOffset offset count] assms(4)
  have r': "r' = Inr ()" and inv3: "ea_inv ea (heap s0 ! indices) s3"
    and frame: "take (length (heap s2)) (heap s3) = heap s2" by simp_all
  from inv3 idx show ?thesis using r r' frame by (simp add: ea_inv_def)
qed

lemma ex_construct: "ElementArray 0 None ex_state0 = (Inr ex_array, ex_state1)"
  by (simp add: ElementArray_def Let_def hasOwnProperty_element_types
      StaticElementArrayBuffer_def Buffer_def bindAndData_def bind_def data_def
      ex_state0_def ex_array_def ex_state1_def)




text \<open>
  C3: with \<open>vertexOffset\<close> zero or omitted, \<open>drawTrianglesBaseVertex\<close> issues the
  \<open>drawElements\<close> call and nothing else: no upload before it, none after it, and the
  contents of every buffer stay as they are.
\<close>

theorem drawTrianglesBaseVertex_zero_offset:
  assumes "element_types (ea_type ea) = Some (glType, tsize)"
    and "vertexOffset = Undefined \<or> vertexOffset = Num 0"
  shows "fst (ea_drawTrianglesBaseVertex ea vertexOffset offset count s) = Inr () \<and>
         calls (snd (ea_drawTrianglesBaseVertex ea vertexOffset offset count s)) =
           calls s @ [DrawElements TRIANGLES (or_default count (int (ea_all ea))) glType
                        (or_default offset 0 * tsize)] \<and>
         store (snd (ea_drawTrianglesBaseVertex ea vertexOffset offset count s)) = store s"
  using assms
  by (auto simp: ea_drawTrianglesBaseVertex_def Let_def drawElements_ok)

theorem drawTrianglesBaseVertex_zero_offset_witness:
  "fst (ea_drawTrianglesBaseVertex ex_array (Num 0) (Num 1) (Num 2) ex_state1) = Inr () \<and>
   calls (snd (ea_drawTrianglesBaseVertex ex_array (Num 0) (Num 1) (Num 2) ex_state1)) =
     calls ex_state1 @ [DrawElements TRIANGLES 2 UNSIGNED_SHORT 2] \<and>
   store (snd (ea_drawTrianglesBaseVertex ex_array (Num 0) (Num 1) (Num 2) ex_state1)) =
     [[0, 1, 2]]"
proof -
  have ty: "element_types (ea_type ex_array) = Some (UNSIGNED_SHORT, 2)"
    by (simp add: ex_array_def element_types_def)
  have z: "Num 0 = Undefined \<or> Num 0 = Num 0" by simp
  show ?thesis
    using drawTrianglesBaseVertex_zero_offset [OF ty z, of "Num 1" "Num 2" ex_state1]
    by (simp add: ex_array_def ex_state1_def)
qed

section \<open>Attribute arrays: the constructor and its methods\<close>

lemma hasOwnProperty_attribute_types:
  "hasOwnProperty attribute_types type \<longleftrightarrow>
     type \<in> {Some ''byte'', Some ''ubyte'', Some ''short'', Some ''ushort'', Some ''float''}"
  by (cases type) (auto simp: hasOwnProperty_def attribute_types_def)

lemma attribute_types_cases:
  "hasOwnProperty attribute_types (Some t) \<Longrightarrow>
   \<exists>glType tsize. attribute_types t = Some (glType, tsize)"
  by (auto simp: hasOwnProperty_def split: option.splits)

lemma buffer_types_cases:
  "Option.bind buffer_type buffer_types = Some new_buffer \<Longrightarrow>
   new_buffer = StaticArrayBuffer \<or> new_buffer = StreamArrayBuffer \<or>
   new_buffer = DynamicArrayBuffer"
  by (cases buffer_type) (auto simp: buffer_types_def split: if_splits)

lemma array_buffer_target:
  assumes "new_buffer = StaticArrayBuffer \<or> new_buffer = StreamArrayBuffer \<or>
           new_buffer = DynamicArrayBuffer"
    and "new_buffer t s = (b, s1)"
  shows "b_target b = ARRAY_BUFFER"
  using assms
  by (auto simp: StaticArrayBuffer_def StreamArrayBuffer_def DynamicArrayBuffer_def Buffer_def)

lemma AttributeArray_Inr:
  assumes "AttributeArray index type num buffer_type d normalize' s = (Inr aa, s1)"
  shows "aa_index aa = index" and "aa_num aa = num" and "aa_normalize aa = normalize'"
    and "type = Some (aa_type aa)"
    and "hasOwnProperty attribute_types (Some (aa_type aa))"
    and "b_target (aa_buffer aa) = ARRAY_BUFFER"
proof -
  from assms have own: "hasOwnProperty attribute_types type"
    by (auto simp: AttributeArray_def split: if_splits)
  then obtain t where t: "type = Some t" by (cases type) (auto simp: hasOwnProperty_def)
  from assms own obtain new_buffer where
    nb: "Option.bind buffer_type buffer_types = Some new_buffer"
    by (auto simp: AttributeArray_def split: option.splits)
  obtain b s' where b: "new_buffer t s = (b, s')" by (cases "new_buffer t s")
  from assms own nb b t have aa: "aa = \<lparr>aa_buffer = b, aa_index = index, aa_type = t,
      aa_num = num, aa_normalize = normalize'\<rparr>"
    by (simp add: AttributeArray_def Let_def)
  show "aa_index aa = index" "aa_num aa = num" "aa_normalize aa = normalize'"
    by (simp_all add: aa)
  show "type = Some (aa_type aa)" by (simp add: aa t)
  show "hasOwnProperty attribute_types (Some (aa_type aa))" using own by (simp add: aa t)
  show "b_target (aa_buffer aa) = ARRAY_BUFFER"
    using array_buffer_target [OF buffer_types_cases [OF nb] b] by (simp add: aa)
qed

lemma vertexAttribPointer_ok:
  "attribute_types (aa_type aa) = Some (glType, tsize) \<Longrightarrow>
   vertexAttribPointer aa stride offset s =
     (Inr (), s\<lparr>calls := calls s @
        [VertexAttribPointer (aa_index aa) (aa_num aa) glType (not_not (aa_normalize aa))
           (or_default stride 0 * tsize) (or_default offset 0 * tsize)]\<rparr>)"
  by (simp add: vertexAttribPointer_def)

lemma or_default_zero: "or_default x 0 = (case x of Undefined \<Rightarrow> 0 | Num n \<Rightarrow> n)"
  by (cases x) simp_all

text \<open>
  C5: for an attribute array constructed with the type \<open>X\<close>, \<open>pointer(stride, offset)\<close>
  issues one \<open>vertexAttribPointer\<close> call whose stride and offset are the arguments
  multiplied by the byte size of \<open>X\<close>: 1 for byte and ubyte, 2 for short and ushort,
  4 for float. An omitted stride or offset counts as 0.
\<close>

theorem pointer_scales_by_byte_size:
  assumes "AttributeArray index (Some X) num buffer_type d normalize' s0 = (Inr aa, s1)"
    and "bs = (if X = ''byte'' \<or> X = ''ubyte'' then 1
               else if X = ''short'' \<or> X = ''ushort'' then 2
               else if X = ''float'' then 4 else 0)"
  shows "\<exists>glType. attribute_types X = Some (glType, bs) \<and>
           aa_pointer aa stride offset s =
             (Inr (), s\<lparr>calls := calls s @
                [VertexAttribPointer index num glType (not_not normalize')
                   ((case stride of Undefined \<Rightarrow> 0 | Num n \<Rightarrow> n) * bs)
                   ((case offset of Undefined \<Rightarrow> 0 | Num n \<Rightarrow> n) * bs)]\<rparr>)"
proof -
  note facts = AttributeArray_Inr [OF assms(1)]
  from facts(4) have X: "aa_type aa = X" by simp
  from facts(5) X have "X \<in> {''byte'', ''ubyte'', ''short'', ''ushort'', ''float''}"
    by (simp add: hasOwnProperty_attribute_types)
  then obtain glType where ty: "attribute_types X = Some (glType, bs)"
    using assms(2) by (auto simp: attribute_types_def)
  from vertexAttribPointer_ok [of aa glType bs stride offset s] ty X facts(1,2,3)
  show ?thesis by (simp add: aa_pointer_def or_default_zero)
qed

text \<open>
  C6: on an attribute array built by the constructor, \<open>bindAndPointer(stride, offset)\<close>
  does what \<open>bind\<close> followed by \<open>pointer(stride, offset)\<close> does: the same result and
  the same state, that is the two calls \<open>bindBuffer(ARRAY_BUFFER, buffer)\<close> and
  \<open>vertexAttribPointer\<close> with the stride and offset scaled by the byte size.
\<close>

theorem bindAndPointer_is_bind_then_pointer:
  assumes "AttributeArray index type num buffer_type d normalize' s0 = (Inr aa, s1)"
  shows "aa_bindAndPointer aa stride offset s = bind_then_pointer aa stride offset s \<and>
         (\<exists>glType tsize. attribute_types (aa_type aa) = Some (glType, tsize) \<and>
            fst (aa_bindAndPointer aa stride offset s) = Inr () \<and>
            new_calls s (snd (aa_bindAndPointer aa stride offset s)) =
              [BindBuffer ARRAY_BUFFER (b_handle (aa_buffer aa)),
               VertexAttribPointer index num glType (not_not normalize')
                 (or_default stride 0 * tsize) (or_default offset 0 * tsize)])"
proof -
  note facts = AttributeArray_Inr [OF assms]
  from attribute_types_cases [OF facts(5)]
  obtain glType tsize where ty: "attribute_types (aa_type aa) = Some (glType, tsize)" by blast
  have eq: "aa_bindAndPointer aa stride offset s = bind_then_pointer aa stride offset s"
    by (simp add: aa_bindAndPointer_def bind_then_pointer_def aa_pointer_def bind_def
        Let_def facts(6))
  have "fst (aa_bindAndPointer aa stride offset s) = Inr () \<and>
        new_calls s (snd (aa_bindAndPointer aa stride offset s)) =
          [BindBuffer ARRAY_BUFFER (b_handle (aa_buffer aa)),
           VertexAttribPointer index num glType (not_not normalize')
             (or_default stride 0 * tsize) (or_default offset 0 * tsize)]"
    by (simp add: aa_bindAndPointer_def Let_def vertexAttribPointer_ok [OF ty]
        new_calls_def facts(1,2,3))
  with eq ty show ?thesis by blast
qed


section \<open>Sets of attribute arrays: slots in insertion order\<close>

lemma enable_loop_calls:
  "enable_loop i aas s =
     s\<lparr>calls := calls s @ map (\<lambda>k. EnableVertexAttribArray (int k)) [i..<length (aas_arrays aas)]\<rparr>"
proof (induction i aas s rule: enable_loop.induct)
  case (1 i aas s)
  show ?case
  proof (cases "i < length (aas_arrays aas)")
    case True
    then show ?thesis
      using "1.IH" by (subst enable_loop.simps) (simp add: upt_conv_Cons)
  next
    case False
    then show ?thesis by (subst enable_loop.simps) simp
  qed
qed

lemma disable_loop_calls:
  "disable_loop i aas s =
     s\<lparr>calls := calls s @ map (\<lambda>k. DisableVertexAttribArray (int k)) [i..<length (aas_arrays aas)]\<rparr>"
proof (induction i aas s rule: disable_loop.induct)
  case (1 i aas s)
  show ?case
  proof (cases "i < length (aas_arrays aas)")
    case True
    then show ?thesis
      using "1.IH" by (subst disable_loop.simps) (simp add: upt_conv_Cons)
  next
    case False
    then show ?thesis by (subst disable_loop.simps) simp
  qed
qed

lemma push_new_Inr:
  assumes "\<And>i t d n s a s'. AttributeArrayN i t d n s = (Inr a, s') \<Longrightarrow> aa_index a = i"
    and "push_new AttributeArrayN aas type d normalize' s = (Inr aas', s')"
  shows "\<exists>a. aas_arrays aas' = aas_arrays aas @ [a] \<and>
             aa_index a = int (length (aas_arrays aas)) \<and> aas_all aas' = aas_all aas"
proof -
  obtain r s1 where
    c: "AttributeArrayN (int (length (aas_arrays aas))) type d normalize' s = (r, s1)"
    by (cases "AttributeArrayN (int (length (aas_arrays aas))) type d normalize' s")
  with assms(2) obtain a where a: "r = Inr a"
    and aas': "aas' = aas\<lparr>aas_arrays := aas_arrays aas @ [a]\<rparr>"
    by (cases r) (auto simp: push_new_def)
  from c a have "aa_index a = int (length (aas_arrays aas))"
    using assms(1) by blast
  with aas' show ?thesis by simp
qed

lemma AttributeArrayN_index:
  "AttributeArray1 i t d n s = (Inr a, s') \<Longrightarrow> aa_index a = i"
  "AttributeArray2 i t d n s = (Inr a, s') \<Longrightarrow> aa_index a = i"
  "AttributeArray3 i t d n s = (Inr a, s') \<Longrightarrow> aa_index a = i"
  "AttributeArray4 i t d n s = (Inr a, s') \<Longrightarrow> aa_index a = i"
  by (auto simp: AttributeArray1_def AttributeArray2_def AttributeArray3_def
      AttributeArray4_def dest: AttributeArray_Inr(1))

lemma push_new_AttributeArrayN:
  "push_new AttributeArray1 aas type d n s = (Inr aas', s') \<Longrightarrow>
   \<exists>a. aas_arrays aas' = aas_arrays aas @ [a] \<and>
       aa_index a = int (length (aas_arrays aas)) \<and> aas_all aas' = aas_all aas"
  "push_new AttributeArray2 aas type d n s = (Inr aas', s') \<Longrightarrow>
   \<exists>a. aas_arrays aas' = aas_arrays aas @ [a] \<and>
       aa_index a = int (length (aas_arrays aas)) \<and> aas_all aas' = aas_all aas"
  "push_new AttributeArray3 aas type d n s = (Inr aas', s') \<Longrightarrow>
   \<exists>a. aas_arrays aas' = aas_arrays aas @ [a] \<and>
       aa_index a = int (length (aas_arrays aas)) \<and> aas_all aas' = aas_all aas"
  "push_new AttributeArray4 aas type d n s = (Inr aas', s') \<Longrightarrow>
   \<exists>a. aas_arrays aas' = aas_arrays aas @ [a] \<and>
       aa_index a = int (length (aas_arrays aas)) \<and> aas_all aas' = aas_all aas"
  by (erule push_new_Inr [rotated], erule AttributeArrayN_index)+

lemmas add_defs =
  add1_def add1b_def add1ub_def add1s_def add1us_def add1f_def
  add2_def add2b_def add2ub_def add2s_def add2us_def add2f_def
  add3_def add3b_def add3ub_def add3s_def add3us_def add3f_def
  add4_def add4b_def add4ub_def add4s_def add4us_def add4f_def

lemma aas_add_Inr:
  assumes "aas_add aas c s = (Inr aas', s')"
  shows "\<exists>a. aas_arrays aas' = aas_arrays aas @ [a] \<and>
             aa_index a = int (length (aas_arrays aas)) \<and> aas_all aas' = aas_all aas"
  using assms
  apply (cases c; simp add: add_defs)
  apply (erule push_new_AttributeArrayN)+
  done

lemma aas_add_slots:
  assumes "slots_ok aas" and "aas_add aas c s = (Inr aas', s')"
  shows "slots_ok aas' \<and> length (aas_arrays aas') = Suc (length (aas_arrays aas))"
  using aas_add_Inr [OF assms(2)] assms(1) by (auto simp: slots_ok_def)

lemma aas_run_slots:
  "slots_ok aas \<Longrightarrow> aas_run cs aas s = (n, aas', s') \<Longrightarrow>
   slots_ok aas' \<and> length (aas_arrays aas') = length (aas_arrays aas) + n"
proof (induction cs arbitrary: aas s n aas' s')
  case Nil
  then show ?case by simp
next
  case (Cons c cs)
  obtain r s1 where step: "aas_add aas c s = (r, s1)" by (cases "aas_add aas c s")
  show ?case
  proof (cases r)
    case (Inl e)
    with step Cons.prems(2) have "aas_run cs aas s1 = (n, aas', s')" by simp
    from Cons.IH [OF Cons.prems(1) this] show ?thesis .
  next
    case (Inr aas1)
    obtain m aas2 s2 where rest: "aas_run cs aas1 s1 = (m, aas2, s2)"
      by (cases "aas_run cs aas1 s1")
    with step Inr Cons.prems(2) have n: "n = Suc m" and eq: "aas2 = aas'" "s2 = s'" by simp_all
    from aas_add_slots [OF Cons.prems(1)] step Inr
    have ok1: "slots_ok aas1" and len1: "length (aas_arrays aas1) = Suc (length (aas_arrays aas))"
      by simp_all
    from Cons.IH [OF ok1 rest] len1 n eq show ?thesis by simp
  qed
qed

text \<open>
  C7: after any run of add calls on a new set, of which \<open>n\<close> returned, the set holds
  \<open>n\<close> arrays, the \<open>k\<close>-th of them built for the attribute index \<open>k\<close>; \<open>enable\<close>
  issues \<open>enableVertexAttribArray\<close> for exactly the indices 0 to \<open>n - 1\<close>, in order,
  and \<open>disable\<close> issues \<open>disableVertexAttribArray\<close> for exactly the same indices.
\<close>

theorem attribute_slots_follow_insertion_order:
  assumes "aas_run cs (AttributeArrays count) s0 = (n, aas, s1)"
  shows "length (aas_arrays aas) = n \<and>
         map aa_index (aas_arrays aas) = map int [0..<n] \<and>
         new_calls s (aas_enable aas s) = map (\<lambda>k. EnableVertexAttribArray (int k)) [0..<n] \<and>
         new_calls s (aas_disable aas s) = map (\<lambda>k. DisableVertexAttribArray (int k)) [0..<n]"
proof -
  have "slots_ok (AttributeArrays count)" by (simp add: slots_ok_def AttributeArrays_def)
  from aas_run_slots [OF this assms]
  have ok: "slots_ok aas" and len: "length (aas_arrays aas) = n"
    by (simp_all add: AttributeArrays_def)
  from ok len show ?thesis
    by (simp add: slots_ok_def aas_enable_def aas_disable_def enable_loop_calls
        disable_loop_calls)
qed


section \<open>Element arrays: the default type and an explicit count of zero\<close>

lemma ElementArray_default_type:
  assumes "type = None \<or> type = Some ''''"
  shows "ElementArray indices type s =
     (Inr \<lparr>ea_buffer = \<lparr>b_handle = length (store s), b_target = ELEMENT_ARRAY_BUFFER,
                          b_type = ''ushort'', b_usage = STATIC_DRAW\<rparr>,
            ea_indices = indices, ea_type = ''ushort'',
            ea_all = length (heap s ! indices)\<rparr>,
      s\<lparr>store := store s @ [heap s ! indices],
        calls := calls s @ [CreateBuffer (length (store s)),
          BindBuffer ELEMENT_ARRAY_BUFFER (length (store s)),
          BufferData (length (store s)) (heap s ! indices) STATIC_DRAW]\<rparr>)"
  using assms
  by (auto simp: ElementArray_def Let_def hasOwnProperty_element_types
      StaticElementArrayBuffer_def Buffer_def bindAndData_def bind_def data_def)

lemma drawTrianglesBaseVertex_draws:
  assumes "element_types (ea_type ea) = Some (glType, tsize)"
  shows "filter is_draw (new_calls s (snd (ea_drawTrianglesBaseVertex ea vertexOffset offset count s)))
         = [DrawElements TRIANGLES (or_default count (int (ea_all ea))) glType
              (or_default offset 0 * tsize)]"
  by (simp add: ea_drawTrianglesBaseVertex_def Let_def drawElements_ok [OF assms]
      subData_def new_calls_def)

text \<open>
  C8: when the type argument of \<open>context.ElementArray\<close> is omitted or falsy (the empty
  string), the constructor returns an element array of type ushort: it creates one
  buffer, an element array buffer of type ushort with static draw usage, binds it and
  uploads the index list to it, and does nothing else; and each of the four draw
  helpers issues its \<open>drawElements\<close> call with \<open>UNSIGNED_SHORT\<close> and the element offset
  multiplied by 2.
\<close>

theorem omitted_type_is_ushort:
  assumes "type = None \<or> type = Some ''''"
    and "ElementArray indices type s0 = (r, s1)"
  shows "\<exists>ea. r = Inr ea \<and>
           ea = \<lparr>ea_buffer = \<lparr>b_handle = length (store s0), b_target = ELEMENT_ARRAY_BUFFER,
                                b_type = ''ushort'', b_usage = STATIC_DRAW\<rparr>,
                  ea_indices = indices, ea_type = ''ushort'',
                  ea_all = length (heap s0 ! indices)\<rparr> \<and>
           s1 = s0\<lparr>store := store s0 @ [heap s0 ! indices],
                   calls := calls s0 @
                     [CreateBuffer (length (store s0)),
                      BindBuffer ELEMENT_ARRAY_BUFFER (length (store s0)),
                      BufferData (length (store s0)) (heap s0 ! indices) STATIC_DRAW]\<rparr> \<and>
           b_target (ea_buffer ea) = ELEMENT_ARRAY_BUFFER \<and>
           b_type (ea_buffer ea) = ''ushort'' \<and> ea_type ea = ''ushort'' \<and>
           new_calls s (snd (ea_drawTriangles ea offset count s)) =
             [DrawElements TRIANGLES (or_default count (int (ea_all ea))) UNSIGNED_SHORT
                (or_default offset 0 * 2)] \<and>
           new_calls s (snd (ea_drawTriangleFan ea offset count s)) =
             [DrawElements TRIANGLE_FAN (or_default count (int (ea_all ea))) UNSIGNED_SHORT
                (or_default offset 0 * 2)] \<and>
           new_calls s (snd (ea_drawTriangleStrip ea offset count s)) =
             [DrawElements TRIANGLE_STRIP (or_default count (int (ea_all ea))) UNSIGNED_SHORT
                (or_default offset 0 * 2)] \<and>
           filter is_draw
             (new_calls s (snd (ea_drawTrianglesBaseVertex ea vertexOffset offset count s))) =
             [DrawElements TRIANGLES (or_default count (int (ea_all ea))) UNSIGNED_SHORT
                (or_default offset 0 * 2)]"
proof -
  define ea where "ea =
    \<lparr>ea_buffer = \<lparr>b_handle = length (store s0), b_target = ELEMENT_ARRAY_BUFFER,
                   b_type = ''ushort'', b_usage = STATIC_DRAW\<rparr>,
     ea_indices = indices, ea_type = ''ushort'', ea_all = length (heap s0 ! indices)\<rparr>"
  from ElementArray_default_type [OF assms(1), of indices s0] assms(2)
  have r: "r = Inr ea"
    and s1: "s1 = s0\<lparr>store := store s0 @ [heap s0 ! indices],
                   calls := calls s0 @
                     [CreateBuffer (length (store s0)),
                      BindBuffer ELEMENT_ARRAY_BUFFER (length (store s0)),
                      BufferData (length (store s0)) (heap s0 ! indices) STATIC_DRAW]\<rparr>"
    by (simp_all add: ea_def)
  have ty: "ea_type ea = ''ushort''"
    and b: "b_target (ea_buffer ea) = ELEMENT_ARRAY_BUFFER" "b_type (ea_buffer ea) = ''ushort''"
    by (simp_all add: ea_def)
  from ty have tbl: "element_types (ea_type ea) = Some (UNSIGNED_SHORT, 2)"
    by (simp add: element_types_def)
  have draws: "new_calls s (snd (ea_drawTriangles ea offset count s)) =
             [DrawElements TRIANGLES (or_default count (int (ea_all ea))) UNSIGNED_SHORT
                (or_default offset 0 * 2)] \<and>
           new_calls s (snd (ea_drawTriangleFan ea offset count s)) =
             [DrawElements TRIANGLE_FAN (or_default count (int (ea_all ea))) UNSIGNED_SHORT
                (or_default offset 0 * 2)] \<and>
           new_calls s (snd (ea_drawTriangleStrip ea offset count s)) =
             [DrawElements TRIANGLE_STRIP (or_default count (int (ea_all ea))) UNSIGNED_SHORT
                (or_default offset 0 * 2)] \<and>
           filter is_draw
             (new_calls s (snd (ea_drawTrianglesBaseVertex ea vertexOffset offset count s))) =
             [DrawElements TRIANGLES (or_default count (int (ea_all ea))) UNSIGNED_SHORT
                (or_default offset 0 * 2)]"
    using drawTrianglesBaseVertex_draws [OF tbl]
    by (simp add: ea_drawTriangles_def ea_drawTriangleFan_def ea_drawTriangleStrip_def
        Let_def drawElements_ok [OF tbl])
  have "ea = \<lparr>ea_buffer = \<lparr>b_handle = length (store s0), b_target = ELEMENT_ARRAY_BUFFER,
                                b_type = ''ushort'', b_usage = STATIC_DRAW\<rparr>,
                  ea_indices = indices, ea_type = ''ushort'',
                  ea_all = length (heap s0 ! indices)\<rparr>"
    by (simp add: ea_def)
  with r s1 ty b draws show ?thesis by blast
qed

text \<open>
  C9: an explicit count of 0 passed to \<open>drawTriangles\<close>, \<open>drawTriangleFan\<close> or
  \<open>drawTriangleStrip\<close> of an element array draws all its indices (the length of the
  index list at construction), whereas the helpers of the same names of a set of
  attribute arrays pass the explicit 0 on to \<open>drawArrays\<close>.
\<close>

theorem explicit_zero_count:
  assumes "ElementArray indices type s0 = (Inr ea, s1)"
  shows "(\<exists>glType tsize. element_types (ea_type ea) = Some (glType, tsize) \<and>
            new_calls s (snd (ea_drawTriangles ea offset (Num 0) s)) =
              [DrawElements TRIANGLES (int (length (heap s0 ! indices))) glType
                 (or_default offset 0 * tsize)] \<and>
            new_calls s (snd (ea_drawTriangleFan ea offset (Num 0) s)) =
              [DrawElements TRIANGLE_FAN (int (length (heap s0 ! indices))) glType
                 (or_default offset 0 * tsize)] \<and>
            new_calls s (snd (ea_drawTriangleStrip ea offset (Num 0) s)) =
              [DrawElements TRIANGLE_STRIP (int (length (heap s0 ! indices))) glType
                 (or_default offset 0 * tsize)]) \<and>
         new_calls s (aas_drawTriangles aas [first, Num 0] s) =
           [DrawArrays TRIANGLES first (Num 0)] \<and>
         new_calls s (aas_drawTriangleFan aas [first, Num 0] s) =
           [DrawArrays TRIANGLE_FAN first (Num 0)] \<and>
         new_calls s (aas_drawTriangleStrip aas [first, Num 0] s) =
           [DrawArrays TRIANGLE_STRIP first (Num 0)]"
proof -
  note facts = ElementArray_Inr [OF assms]
  from element_types_cases [OF facts(3)]
  obtain glType tsize where ty: "element_types (ea_type ea) = Some (glType, tsize)" by blast
  have ea: "new_calls s (snd (ea_drawTriangles ea offset (Num 0) s)) =
              [DrawElements TRIANGLES (int (length (heap s0 ! indices))) glType
                 (or_default offset 0 * tsize)] \<and>
            new_calls s (snd (ea_drawTriangleFan ea offset (Num 0) s)) =
              [DrawElements TRIANGLE_FAN (int (length (heap s0 ! indices))) glType
                 (or_default offset 0 * tsize)] \<and>
            new_calls s (snd (ea_drawTriangleStrip ea offset (Num 0) s)) =
              [DrawElements TRIANGLE_STRIP (int (length (heap s0 ! indices))) glType
                 (or_default offset 0 * tsize)]"
    by (simp add: ea_drawTriangles_def ea_drawTriangleFan_def ea_drawTriangleStrip_def
        Let_def drawElements_ok [OF ty] facts(2))
  have aas: "new_calls s (drawArrays mode aas [first, Num 0] s) =
      [DrawArrays mode first (Num 0)]" for mode
    by (simp add: drawArrays_def arg_def Let_def)
  from ty ea aas show ?thesis
    by (simp add: aas_drawTriangles_def aas_drawTriangleFan_def aas_drawTriangleStrip_def)
qed

section \<open>Constructor errors\<close>

text \<open>
  C10: for an invalid type name \<open>context.AttributeArray\<close> and \<open>context.ElementArray\<close>
  throw their error string and leave the state as it was: no buffer is created and no
  call is issued. The same holds of every other way the constructors fail.
\<close>

theorem constructor_throws_before_any_call:
  "(type \<notin> {Some ''byte'', Some ''ubyte'', Some ''short'', Some ''ushort'', Some ''float''} \<longrightarrow>
      AttributeArray index type num buffer_type d normalize' s =
        (Inl (Thrown attribute_error), s)) \<and>
   ((\<exists>t. etype = Some t \<and> t \<noteq> '''' \<and> t \<noteq> ''ubyte'' \<and> t \<noteq> ''ushort'') \<longrightarrow>
      ElementArray indices etype s = (Inl (Thrown element_error), s)) \<and>
   (\<forall>e s'. AttributeArray index type num buffer_type d normalize' s = (Inl e, s') \<longrightarrow> s' = s) \<and>
   (\<forall>e s'. ElementArray indices etype s = (Inl e, s') \<longrightarrow> s' = s)"
proof -
  have a: "AttributeArray index type num buffer_type d normalize' s =
        (Inl (Thrown attribute_error), s)"
    if "type \<notin> {Some ''byte'', Some ''ubyte'', Some ''short'', Some ''ushort'', Some ''float''}"
    using that by (simp add: AttributeArray_def hasOwnProperty_attribute_types)
  have b: "ElementArray indices etype s = (Inl (Thrown element_error), s)"
    if "\<exists>t. etype = Some t \<and> t \<noteq> '''' \<and> t \<noteq> ''ubyte'' \<and> t \<noteq> ''ushort''"
    using that by (auto simp: ElementArray_def Let_def hasOwnProperty_element_types)
  have c: "s' = s" if "AttributeArray index type num buffer_type d normalize' s = (Inl e, s')"
    for e s'
    using that
    by (auto simp: AttributeArray_def Let_def split: if_splits option.splits prod.splits)
  have d: "s' = s" if "ElementArray indices etype s = (Inl e, s')" for e s'
    using that
    by (auto simp: ElementArray_def Let_def split: if_splits option.splits prod.splits)
  from a b c d show ?thesis by blast
qed

text \<open>
  C4, as amended: \<open>context.AttributeArray\<close> throws its error string if and only if the
  type argument is not one of byte, ubyte, short, ushort and float, whatever the other
  arguments are; \<open>context.ElementArray\<close> throws its error string if and only if the
  type is supplied, is not the empty string, and is neither ubyte nor ushort. An
  omitted type and the empty string both default to ushort and do not throw.
\<close>

theorem constructors_throw_iff:
  "(fst (AttributeArray index type num buffer_type d normalize' s) = Inl (Thrown attribute_error)
      \<longleftrightarrow> type \<notin> {Some ''byte'', Some ''ubyte'', Some ''short'', Some ''ushort'',
                    Some ''float''}) \<and>
   (fst (ElementArray indices etype s) = Inl (Thrown element_error)
      \<longleftrightarrow> (\<exists>t. etype = Some t \<and> t \<noteq> '''' \<and> t \<noteq> ''ubyte'' \<and> t \<noteq> ''ushort''))"
proof -
  have a: "fst (AttributeArray index type num buffer_type d normalize' s)
             = Inl (Thrown attribute_error)
      \<longleftrightarrow> type \<notin> {Some ''byte'', Some ''ubyte'', Some ''short'', Some ''ushort'',
                    Some ''float''}"
    by (auto simp: AttributeArray_def Let_def hasOwnProperty_attribute_types
        split: option.splits prod.splits)
  have b: "fst (ElementArray indices etype s) = Inl (Thrown element_error)
      \<longleftrightarrow> (\<exists>t. etype = Some t \<and> t \<noteq> '''' \<and> t \<noteq> ''ubyte'' \<and> t \<noteq> ''ushort'')"
    by (cases etype)
      (auto simp: ElementArray_def Let_def hasOwnProperty_element_types split: prod.splits)
  from a b show ?thesis by blast
qed

text \<open>
  C4, as stated, fails for the empty string: it is a supplied type that is neither
  ubyte nor ushort, and \<open>context.ElementArray\<close> does not throw for it.
\<close>

theorem ElementArray_empty_type_counterexample:
  "\<not> (fst (ElementArray 0 (Some '''') ex_state0) = Inl (Thrown element_error)
        \<longleftrightarrow> '''' \<noteq> ''ubyte'' \<and> '''' \<noteq> ''ushort'')"
  by (simp add: ElementArray_def Let_def hasOwnProperty_element_types split: prod.splits)

section \<open>The theorems at the example values\<close>

lemma ex_attribute_construct:
  "AttributeArray 0 (Some ''float'') 3 (Some ''static'') [1, 2, 3] None ex_state0
     = (Inr ex_attribute, ex_state2)"
  by (simp add: AttributeArray_def Let_def hasOwnProperty_attribute_types buffer_types_def
      StaticArrayBuffer_def Buffer_def bindAndData_def bind_def data_def
      ex_state0_def ex_attribute_def ex_state2_def)

theorem pointer_scales_by_byte_size_witness:
  "aa_pointer ex_attribute (Num 6) (Num 3) ex_state0 =
     (Inr (), ex_state0\<lparr>calls := [VertexAttribPointer 0 3 FLOAT False 24 12]\<rparr>) \<and>
   aa_pointer ex_attribute Undefined Undefined ex_state0 =
     (Inr (), ex_state0\<lparr>calls := [VertexAttribPointer 0 3 FLOAT False 0 0]\<rparr>)"
proof -
  have bs: "(4::int) = (if ''float'' = ''byte'' \<or> ''float'' = ''ubyte'' then 1
               else if ''float'' = ''short'' \<or> ''float'' = ''ushort'' then 2
               else if ''float'' = ''float'' then 4 else 0)"
    by simp
  show ?thesis
    using pointer_scales_by_byte_size [OF ex_attribute_construct bs, of "Num 6" "Num 3" ex_state0]
      pointer_scales_by_byte_size [OF ex_attribute_construct bs, of Undefined Undefined ex_state0]
    by (simp add: attribute_types_def ex_state0_def)
qed

theorem bindAndPointer_is_bind_then_pointer_witness:
  "aa_bindAndPointer ex_attribute (Num 6) Undefined ex_state0 =
     bind_then_pointer ex_attribute (Num 6) Undefined ex_state0 \<and>
   new_calls ex_state0 (snd (aa_bindAndPointer ex_attribute (Num 6) Undefined ex_state0)) =
     [BindBuffer ARRAY_BUFFER 0, VertexAttribPointer 0 3 FLOAT False 24 0]"
  using bindAndPointer_is_bind_then_pointer
    [OF ex_attribute_construct, of "Num 6" Undefined ex_state0]
  by (auto simp: attribute_types_def ex_attribute_def)

lemma ex_adds_count: "fst (aas_run ex_adds (AttributeArrays Undefined) ex_state0) = 2"
  by (simp add: ex_adds_def AttributeArrays_def add3f_def add1_def add2_def push_new_def
      AttributeArray1_def AttributeArray2_def AttributeArray3_def AttributeArray_def Let_def
      hasOwnProperty_attribute_types buffer_types_def StaticArrayBuffer_def Buffer_def
      bindAndData_def bind_def data_def ex_state0_def split: prod.splits)

theorem attribute_slots_follow_insertion_order_witness:
  "length (aas_arrays (fst (snd (aas_run ex_adds (AttributeArrays Undefined) ex_state0)))) = 2 \<and>
   map aa_index (aas_arrays (fst (snd (aas_run ex_adds (AttributeArrays Undefined) ex_state0))))
     = [0, 1] \<and>
   new_calls ex_state0
     (aas_enable (fst (snd (aas_run ex_adds (AttributeArrays Undefined) ex_state0))) ex_state0)
     = [EnableVertexAttribArray 0, EnableVertexAttribArray 1] \<and>
   new_calls ex_state0
     (aas_disable (fst (snd (aas_run ex_adds (AttributeArrays Undefined) ex_state0))) ex_state0)
     = [DisableVertexAttribArray 0, DisableVertexAttribArray 1]"
proof -
  have run: "aas_run ex_adds (AttributeArrays Undefined) ex_state0 =
      (2, fst (snd (aas_run ex_adds (AttributeArrays Undefined) ex_state0)),
          snd (snd (aas_run ex_adds (AttributeArrays Undefined) ex_state0)))"
    using ex_adds_count by (metis prod.collapse)
  have upt: "[0..<2] = [0, Suc 0]" by (simp add: upt_conv_Cons)
  show ?thesis
    using attribute_slots_follow_insertion_order [OF run, of ex_state0]
    by (simp add: upt)
qed

theorem omitted_type_is_ushort_witness:
  "ElementArray 0 None ex_state0 = (Inr ex_array, ex_state1) \<and>
   calls ex_state1 = [CreateBuffer 0, BindBuffer ELEMENT_ARRAY_BUFFER 0,
                      BufferData 0 [0, 1, 2] STATIC_DRAW] \<and>
   store ex_state1 = [[0, 1, 2]] \<and>
   b_target (ea_buffer ex_array) = ELEMENT_ARRAY_BUFFER \<and>
   b_type (ea_buffer ex_array) = ''ushort'' \<and>
   new_calls ex_state1 (snd (ea_drawTriangleFan ex_array (Num 1) Undefined ex_state1)) =
     [DrawElements TRIANGLE_FAN 3 UNSIGNED_SHORT 2] \<and>
   filter is_draw (new_calls ex_state1
       (snd (ea_drawTrianglesBaseVertex ex_array (Num 10) (Num 1) (Num 2) ex_state1))) =
     [DrawElements TRIANGLES 2 UNSIGNED_SHORT 2]"
proof -
  have ty: "None = None \<or> None = Some ''''" by simp
  have all: "ea_all ex_array = 3" by (simp add: ex_array_def)
  have s0: "store ex_state0 = []" "calls ex_state0 = []" "heap ex_state0 ! 0 = [0, 1, 2]"
    by (simp_all add: ex_state0_def)
  have s1: "calls ex_state1 = [CreateBuffer 0, BindBuffer ELEMENT_ARRAY_BUFFER 0,
                      BufferData 0 [0, 1, 2] STATIC_DRAW]" "store ex_state1 = [[0, 1, 2]]"
    by (simp_all add: ex_state1_def)
  show ?thesis
    using omitted_type_is_ushort [OF ty ex_construct, of ex_state1 "Num 1" Undefined "Num 10"]
      omitted_type_is_ushort [OF ty ex_construct, of ex_state1 "Num 1" "Num 2" "Num 10"]
      ex_construct
    by (simp add: all s1)
qed

theorem explicit_zero_count_witness:
  "new_calls ex_state1 (snd (ea_drawTriangles ex_array Undefined (Num 0) ex_state1)) =
     [DrawElements TRIANGLES 3 UNSIGNED_SHORT 0] \<and>
   new_calls ex_state1 (aas_drawTriangles (AttributeArrays (Num 3)) [Num 0, Num 0] ex_state1) =
     [DrawArrays TRIANGLES (Num 0) (Num 0)]"
proof -
  have len: "length (heap ex_state0 ! 0) = 3" by (simp add: ex_state0_def)
  have ty: "element_types (ea_type ex_array) = Some (UNSIGNED_SHORT, 2)"
    by (simp add: ex_array_def element_types_def)
  show ?thesis
    using explicit_zero_count
      [OF ex_construct, of ex_state1 Undefined "AttributeArrays (Num 3)" "Num 0"]
    by (auto simp: len ty)
qed

theorem constructor_throws_before_any_call_witness:
  "AttributeArray 0 (Some ''double'') 3 (Some ''static'') [1, 2, 3] None ex_state1 =
     (Inl (Thrown attribute_error), ex_state1) \<and>
   ElementArray 0 (Some ''uint'') ex_state1 = (Inl (Thrown element_error), ex_state1)"
  using constructor_throws_before_any_call
    [of "Some ''double''" 0 3 "Some ''static''" "[1, 2, 3]" None ex_state1 "Some ''uint''" 0]
  by simp

theorem constructors_throw_iff_witness:
  "fst (AttributeArray 0 (Some ''double'') 3 (Some ''static'') [1, 2, 3] None ex_state1) =
     Inl (Thrown attribute_error) \<and>
   fst (AttributeArray 0 (Some ''float'') 3 (Some ''nonsense'') [1, 2, 3] None ex_state1) \<noteq>
     Inl (Thrown attribute_error) \<and>
   fst (ElementArray 0 (Some ''uint'') ex_state1) = Inl (Thrown element_error) \<and>
   fst (ElementArray 0 (Some '''') ex_state1) \<noteq> Inl (Thrown element_error) \<and>
   fst (ElementArray 0 None ex_state1) \<noteq> Inl (Thrown element_error)"
  using constructors_throw_iff
      [of 0 "Some ''double''" 3 "Some ''static''" "[1, 2, 3]" None ex_state1 0 "Some ''uint''"]
    constructors_throw_iff
      [of 0 "Some ''float''" 3 "Some ''nonsense''" "[1, 2, 3]" None ex_state1 0 "Some ''''"]
    constructors_throw_iff
      [of 0 "Some ''float''" 3 "Some ''nonsense''" "[1, 2, 3]" None ex_state1 0 None]
  by simp

end
